theory Spec2Isabelle
  imports Main "HOL-Library.Word" "HOL-Library.Sublist"
begin

section \<open>Typed cell identifiers of the notebook front end (\<open>core/model/ids.ts\<close>)\<close>

subsection \<open>JavaScript values used by the module\<close>

text \<open>
  A JavaScript string is a sequence of 16-bit code units; \<open>length\<close>, concatenation and
  \<open>slice\<close> all count code units. String literals of the source are ASCII and are
  written through \<open>lit\<close>.
\<close>

type_synonym code_unit = "16 word"
type_synonym js_string = "code_unit list"

definition lit :: "string \<Rightarrow> js_string" where
  "lit s = map of_char s"

text \<open>
  \<open>counter\<close> is a JavaScript number, that is an IEEE-754 double. It starts at 0 and is
  only ever incremented, so it holds an integer. Every integer up to \<open>2 ^ 53\<close> is a
  double and \<open>n + 1\<close> is computed exactly below that bound. At \<open>2 ^ 53\<close> the sum
  \<open>2 ^ 53 + 1\<close> is not a double: it lies halfway between \<open>2 ^ 53\<close> and \<open>2 ^ 53 + 2\<close>
  and rounds to the neighbour with the even significand, \<open>2 ^ 53\<close> itself.
  \<open>number_succ\<close> is the \<open>+ 1\<close> of \<open>counter++\<close> on the values \<open>0 .. 2 ^ 53\<close>, the only
  ones the counter can hold.
\<close>

definition double_limit :: nat where
  "double_limit = 2 ^ 53"

definition number_succ :: "nat \<Rightarrow> nat" where
  "number_succ n = (if n < double_limit then n + 1 else n)"

text \<open>
  \<open>Number.prototype.toString()\<close> of a non-negative integer below \<open>10 ^ 21\<close> is its
  decimal numeral without leading zeros.
\<close>

definition digit :: "nat \<Rightarrow> code_unit" where
  "digit d = of_nat (48 + d)"

function Number_toString :: "nat \<Rightarrow> js_string" where
  "Number_toString n =
     (if n < 10 then [digit n] else Number_toString (n div 10) @ [digit (n mod 10)])"
  by pat_completeness auto
termination
  by (relation "measure (\<lambda>n. n)") auto

declare Number_toString.simps [simp del]

text \<open>
  \<open>String.prototype.slice(start)\<close> with the end left out: a negative start counts from
  the end of the string, the start is clamped to the string, and the result runs to the
  end of the string.
\<close>

definition String_slice :: "js_string \<Rightarrow> int \<Rightarrow> js_string" where
  "String_slice s start =
     (let len = int (length s);
          from = (if start < 0 then max (len + start) 0 else min start len)
      in if len \<le> from then [] else drop (nat from) s)"

subsection \<open>\<open>CellId\<close>: the module-level counter and its two operations\<close>

record registry =
  counter :: nat

text \<open>\<open>let counter = 0\<close>: the state of a freshly loaded module.\<close>

definition initial :: registry where
  "initial = \<lparr>counter = 0\<rparr>"

text \<open>\<open>const next = counter++; return next.toString()\<close>\<close>

definition CellId_create :: "registry \<Rightarrow> js_string \<times> registry" where
  "CellId_create s =
     (let next = counter s;
          s' = s\<lparr>counter := number_succ (counter s)\<rparr>
      in (Number_toString next, s'))"

text \<open>\<open>counter = 0\<close>\<close>

definition CellId_reset :: "registry \<Rightarrow> registry" where
  "CellId_reset s = s\<lparr>counter := 0\<rparr>"

text \<open>\<open>n\<close> successive calls of \<open>CellId.create()\<close>, with the identifiers in call order.\<close>

fun creates :: "nat \<Rightarrow> registry \<Rightarrow> js_string list \<times> registry" where
  "creates 0 s = ([], s)"
| "creates (Suc n) s =
     (let (c, s') = CellId_create s;
          (cs, s'') = creates n s'
      in (c # cs, s''))"

subsection \<open>\<open>HTMLCellId\<close>\<close>

text \<open>The template literal \<open>`cell-${cellId}`\<close>.\<close>

definition HTMLCellId_create :: "js_string \<Rightarrow> js_string" where
  "HTMLCellId_create cellId = lit ''cell-'' @ cellId"

text \<open>\<open>htmlCellId.slice(5)\<close>\<close>

definition HTMLCellId_parse :: "js_string \<Rightarrow> js_string" where
  "HTMLCellId_parse htmlCellId = String_slice htmlCellId 5"

text \<open>
  The type \<open>`cell-${CellId}`\<close>: the strings that start with the five code units of
  \<open>cell-\<close>.
\<close>

definition is_HTMLCellId :: "js_string \<Rightarrow> bool" where
  "is_HTMLCellId x = (take 5 x = lit ''cell-'')"

subsection \<open>Elements of the document\<close>

text \<open>
  Of a DOM element the module looks at its local name, its attributes and its parent
  element. An element reference therefore carries the chain of its ancestors.
\<close>

datatype element =
  Element (localName: js_string) (attributes: "(js_string \<times> js_string) list")
    (parentElement: "element option")

definition getAttribute :: "element \<Rightarrow> js_string \<Rightarrow> js_string option" where
  "getAttribute e name = map_of (attributes e) name"

text \<open>
  The selector \<open>div[id^="cell-"]\<close>: a \<open>div\<close> element that has an \<open>id\<close> attribute whose
  value begins with \<open>cell-\<close>.
\<close>

definition matches_cell_selector :: "element \<Rightarrow> bool" where
  "matches_cell_selector e =
     (localName e = lit ''div'' \<and>
      (case getAttribute e (lit ''id'') of
         None \<Rightarrow> False
       | Some v \<Rightarrow> take 5 v = lit ''cell-''))"

text \<open>
  \<open>Element.closest\<close>: the element itself if it matches, otherwise the closest of its
  parent; \<open>null\<close> when the root is passed without a match.
\<close>

fun closest :: "(element \<Rightarrow> bool) \<Rightarrow> element \<Rightarrow> element option" where
  "closest sel (Element n as None) =
     (if sel (Element n as None) then Some (Element n as None) else None)"
| "closest sel (Element n as (Some p)) =
     (if sel (Element n as (Some p)) then Some (Element n as (Some p)) else closest sel p)"

definition HTMLCellId_findElement :: "element \<Rightarrow> element option" where
  "HTMLCellId_findElement e = closest matches_cell_selector e"

text \<open>The element followed by its parent, grandparent and so on up to the root.\<close>

fun inclusive_ancestors :: "element \<Rightarrow> element list" where
  "inclusive_ancestors (Element n as None) = [Element n as None]"
| "inclusive_ancestors (Element n as (Some p)) = Element n as (Some p) # inclusive_ancestors p"

text \<open>The DOM-anchor format of the specification: an identifier beginning with \<open>cell-\<close>.\<close>

definition has_anchor_id :: "element \<Rightarrow> bool" where
  "has_anchor_id e =
     (case getAttribute e (lit ''id'') of None \<Rightarrow> False | Some v \<Rightarrow> is_HTMLCellId v)"

subsection \<open>The module as a whole\<close>

text \<open>
  The five exported operations, run against the module state. Only \<open>CellId.create\<close> and
  \<open>CellId.reset\<close> mention \<open>counter\<close>.
\<close>

datatype call =
  Create | Reset | HtmlCreate js_string | HtmlParse js_string | FindElement element

datatype outcome = Str js_string | Void | Elem "element option"

fun exec :: "call \<Rightarrow> registry \<Rightarrow> outcome \<times> registry" where
  "exec Create s = (let (c, s') = CellId_create s in (Str c, s'))"
| "exec Reset s = (Void, CellId_reset s)"
| "exec (HtmlCreate c) s = (Str (HTMLCellId_create c), s)"
| "exec (HtmlParse h) s = (Str (HTMLCellId_parse h), s)"
| "exec (FindElement e) s = (Elem (HTMLCellId_findElement e), s)"

subsection \<open>Notions used to state the properties\<close>

text \<open>
  An identifier read as a natural number: the value of a string of decimal digits.
\<close>

definition digit_value :: "code_unit \<Rightarrow> nat" where
  "digit_value c = unat c - 48"

definition decimal_value :: "js_string \<Rightarrow> nat" where
  "decimal_value cs = foldl (\<lambda>a c. 10 * a + digit_value c) 0 cs"

text \<open>
  The specification's reading of the lookup, in its own words: the nearest ancestor,
  the element included, whose identifier has the DOM-anchor format, whatever kind of
  element it is.
\<close>

definition nearest_anchor :: "element \<Rightarrow> element option" where
  "nearest_anchor e = find has_anchor_id (inclusive_ancestors e)"

text \<open>
  A cell container with an element nested three levels inside it:
  \<open><div class="Cell" id="cell-2"><div class="output"><p><span id="x">\<close>.
\<close>

definition cell2 :: element where
  "cell2 = Element (lit ''div'') [(lit ''class'', lit ''Cell''), (lit ''id'', lit ''cell-2'')] None"

definition level1 :: element where
  "level1 = Element (lit ''div'') [(lit ''class'', lit ''output'')] (Some cell2)"

definition level2 :: element where
  "level2 = Element (lit ''p'') [] (Some level1)"

definition level3 :: element where
  "level3 = Element (lit ''span'') [(lit ''id'', lit ''x'')] (Some level2)"

text \<open>
  An element inside a \<open>section\<close> that carries an anchor identifier:
  \<open><section id="cell-2"><em>\<close>.
\<close>

definition anchor_section :: element where
  "anchor_section = Element (lit ''section'') [(lit ''id'', lit ''cell-2'')] None"

definition em_in_section :: element where
  "em_in_section = Element (lit ''em'') [] (Some anchor_section)"

text \<open>An element of a page without any cell: \<open><body><div id="app"><h1>\<close>.\<close>

definition page_body :: element where
  "page_body = Element (lit ''body'') [] None"

definition app_root :: element where
  "app_root = Element (lit ''div'') [(lit ''id'', lit ''app'')] (Some page_body)"

definition heading :: element where
  "heading = Element (lit ''h1'') [] (Some app_root)"

section \<open>Properties\<close>

subsection \<open>Numbers and strings\<close>

lemma Number_toString_small: "n < 10 \<Longrightarrow> Number_toString n = [digit n]"
  by (simp add: Number_toString.simps)

lemma digit_value_digit: "d < 10 \<Longrightarrow> digit_value (digit d) = d"
proof -
  assume d: "d < 10"
  have "unat (of_nat (48 + d) :: code_unit) = (48 + d) mod 2 ^ 16"
    by (simp only: unat_of_nat len_of_numeral_defs) simp
  with d show ?thesis
    by (simp only: digit_value_def digit_def) simp
qed

lemma decimal_value_snoc: "decimal_value (cs @ [c]) = 10 * decimal_value cs + digit_value c"
  by (simp add: decimal_value_def)

text \<open>Reading the numeral of \<open>n\<close> gives \<open>n\<close> back, so distinct numbers have distinct numerals.\<close>

lemma decimal_value_toString: "decimal_value (Number_toString n) = n"
proof (induction n rule: Number_toString.induct)
  case (1 n)
  show ?case
  proof (cases "n < 10")
    case True
    then show ?thesis
      by (simp add: Number_toString_small decimal_value_def digit_value_digit)
  next
    case False
    then have "Number_toString n = Number_toString (n div 10) @ [digit (n mod 10)]"
      by (subst Number_toString.simps) simp
    with False 1 show ?thesis
      by (simp add: decimal_value_snoc digit_value_digit)
  qed
qed

lemma Number_toString_inj: "Number_toString m = Number_toString n \<Longrightarrow> m = n"
  by (metis decimal_value_toString)

lemma String_slice_nat: "String_slice s (int k) = drop k s"
  by (auto simp: String_slice_def Let_def min_def)

lemma HTMLCellId_parse_drop: "HTMLCellId_parse s = drop 5 s"
  using String_slice_nat [of s 5] by (simp add: HTMLCellId_parse_def)

lemma length_lit: "length (lit s) = length s"
  by (simp add: lit_def)

subsection \<open>The counter\<close>

text \<open>The counter never leaves the range on which \<open>number_succ\<close> is the double's \<open>+ 1\<close>.\<close>

lemma counter_in_range:
  "counter (CellId_reset s) \<le> double_limit"
  "counter s \<le> double_limit \<Longrightarrow> counter (snd (CellId_create s)) \<le> double_limit"
  by (simp_all add: CellId_reset_def CellId_create_def number_succ_def)

lemma CellId_reset_initial: "CellId_reset s = initial"
  by (simp add: CellId_reset_def initial_def)

text \<open>
  The \<open>i\<close>-th of \<open>n\<close> calls returns the numeral of the counter's start value plus \<open>i\<close>,
  capped at \<open>2 ^ 53\<close>.
\<close>

lemma creates_from:
  "counter s \<le> double_limit \<Longrightarrow>
   creates n s =
     (map (\<lambda>i. Number_toString (min (counter s + i) double_limit)) [0..<n],
      s\<lparr>counter := min (counter s + n) double_limit\<rparr>)"
proof (induction n arbitrary: s)
  case 0
  then show ?case by simp
next
  case (Suc n)
  let ?s' = "s\<lparr>counter := number_succ (counter s)\<rparr>"
  have le: "counter ?s' \<le> double_limit"
    using Suc.prems by (simp add: number_succ_def)
  have step: "min (counter ?s' + i) double_limit = min (counter s + Suc i) double_limit" for i
    using Suc.prems by (simp add: number_succ_def)
  have "creates (Suc n) s =
      (Number_toString (counter s) # fst (creates n ?s'), snd (creates n ?s'))"
    by (simp add: CellId_create_def split_beta)
  also have "\<dots> = (map (\<lambda>i. Number_toString (min (counter s + i) double_limit)) [0..<Suc n],
      s\<lparr>counter := min (counter s + Suc n) double_limit\<rparr>)"
    using Suc.prems by (simp only: Suc.IH [OF le] step map_upt_Suc) simp
  finally show ?case .
qed

lemma creates_after_reset:
  "creates n (CellId_reset s) =
     (map (\<lambda>i. Number_toString (min i double_limit)) [0..<n],
      s\<lparr>counter := min n double_limit\<rparr>)"
  using creates_from [of "CellId_reset s" n] by (simp add: CellId_reset_def)

text \<open>
  After \<open>2 ^ 53 + 2\<close> calls the last two identifiers are both the numeral of \<open>2 ^ 53\<close>.
\<close>

lemma creates_saturated:
  fixes ids :: "js_string list"
  defines "ids \<equiv> fst (creates (double_limit + 2) (CellId_reset initial))"
  shows "length ids = double_limit + 2"
    and "ids ! double_limit = Number_toString double_limit"
    and "ids ! (double_limit + 1) = Number_toString double_limit"
  by (simp_all add: ids_def creates_after_reset del: upt_Suc)

text \<open>
  C1: for every natural number N, N calls of \<open>CellId.create()\<close> after a
  \<open>CellId.reset()\<close> return N pairwise distinct identifiers. As stated this fails: the
  counter is a double and stops advancing at \<open>2 ^ 53\<close>, so the calls number
  \<open>2 ^ 53 + 1\<close> and \<open>2 ^ 53 + 2\<close> return the same identifier.
\<close>

theorem create_distinct_counterexample:
  "\<not> distinct (fst (creates (double_limit + 2) (CellId_reset initial)))"
proof -
  let ?ids = "fst (creates (double_limit + 2) (CellId_reset initial))"
  have "double_limit < length ?ids" "double_limit + 1 < length ?ids"
    "double_limit \<noteq> double_limit + 1" "?ids ! double_limit = ?ids ! (double_limit + 1)"
    by (simp_all only: creates_saturated)
  then show ?thesis
    unfolding distinct_conv_nth by blast
qed

text \<open>
  C1, amended: for every N up to \<open>2 ^ 53 + 1\<close>, N calls of \<open>CellId.create()\<close> after a
  \<open>CellId.reset()\<close> return N pairwise distinct identifiers.
\<close>

theorem create_distinct:
  "n \<le> double_limit + 1 \<Longrightarrow> distinct (fst (creates n (CellId_reset s)))"
proof -
  assume n: "n \<le> double_limit + 1"
  have "inj_on (\<lambda>i. Number_toString (min i double_limit)) (set [0..<n])"
  proof (rule inj_onI)
    fix i j assume "i \<in> set [0..<n]" "j \<in> set [0..<n]"
      and eq: "Number_toString (min i double_limit) = Number_toString (min j double_limit)"
    then have "i \<le> double_limit" "j \<le> double_limit" using n by auto
    with Number_toString_inj [OF eq] show "i = j" by simp
  qed
  then show ?thesis
    by (simp add: creates_after_reset distinct_map)
qed

theorem create_distinct_witness:
  "(3::nat) \<le> double_limit + 1 \<and> distinct (fst (creates 3 (CellId_reset initial)))"
  using create_distinct [of 3 initial] by (simp add: double_limit_def)

text \<open>
  C3: for every N, \<open>CellId.reset()\<close> followed by N calls of \<open>CellId.create()\<close> yields
  the same sequence of identifiers as N calls on a freshly loaded module; the final
  states agree as well.
\<close>

theorem reset_like_fresh:
  "fst (creates n (CellId_reset s)) = fst (creates n initial) \<and>
   creates n (CellId_reset s) = creates n initial"
  by (simp add: CellId_reset_initial)

text \<open>
  C5: starting from the reset state, three successive calls of \<open>CellId.create()\<close> return
  \<open>"0"\<close>, \<open>"1"\<close> and \<open>"2"\<close>, in that order.
\<close>

theorem create_three_after_reset:
  "fst (creates 3 (CellId_reset s)) = [lit ''0'', lit ''1'', lit ''2'']"
  by (simp add: numeral_3_eq_3 CellId_create_def CellId_reset_def number_succ_def
      double_limit_def Number_toString_small digit_def lit_def)

text \<open>
  C8: between two resets the identifiers returned by successive calls of
  \<open>CellId.create()\<close>, read as natural numbers, are strictly increasing. As stated this
  fails once the counter has reached \<open>2 ^ 53\<close>: the identifiers repeat from there on.
\<close>

theorem create_increasing_counterexample:
  "\<not> sorted_wrt (<)
     (map decimal_value (fst (creates (double_limit + 2) (CellId_reset initial))))"
proof -
  let ?ids = "fst (creates (double_limit + 2) (CellId_reset initial))"
  let ?vs = "map decimal_value ?ids"
  have len: "length ?vs = double_limit + 2"
    by (simp only: length_map creates_saturated)
  have "?vs ! double_limit = decimal_value (?ids ! double_limit)"
    by (rule nth_map) (simp only: creates_saturated)
  moreover have "?vs ! (double_limit + 1) = decimal_value (?ids ! (double_limit + 1))"
    by (rule nth_map) (simp only: creates_saturated)
  ultimately have same: "?vs ! double_limit = ?vs ! (double_limit + 1)"
    by (simp only: creates_saturated)
  show ?thesis
  proof
    assume "sorted_wrt (<) ?vs"
    moreover have "double_limit < double_limit + 1" "double_limit + 1 < length ?vs"
      by (simp_all only: len)
    ultimately have "?vs ! double_limit < ?vs ! (double_limit + 1)"
      by (rule sorted_wrt_nth_less)
    with same show False by simp
  qed
qed

text \<open>
  C8, amended: for a run of at most \<open>2 ^ 53 + 1\<close> calls of \<open>CellId.create()\<close> after a
  reset, the identifiers returned, read as natural numbers, are strictly increasing.
\<close>

theorem create_increasing:
  "n \<le> double_limit + 1 \<Longrightarrow>
   sorted_wrt (<) (map decimal_value (fst (creates n (CellId_reset s))))"
proof -
  assume n: "n \<le> double_limit + 1"
  have "map decimal_value (fst (creates n (CellId_reset s))) =
      map (\<lambda>i. min i double_limit) [0..<n]"
    by (simp add: creates_after_reset decimal_value_toString comp_def)
  also have "\<dots> = map (\<lambda>i. i) [0..<n]"
    using n by (intro map_cong) auto
  finally show ?thesis by (simp only: list.map_ident sorted_wrt_upt)
qed

theorem create_increasing_witness:
  "(3::nat) \<le> double_limit + 1 \<and>
   sorted_wrt (<) (map decimal_value (fst (creates 3 (CellId_reset initial))))"
  using create_increasing [of 3 initial] by (simp add: double_limit_def)

text \<open>
  C9: each call of \<open>CellId.create()\<close> advances the counter by exactly one, and
  \<open>HTMLCellId.create\<close> and \<open>HTMLCellId.parse\<close> leave the module state unchanged. The
  first half fails, as stated, in the state reached by \<open>2 ^ 53\<close> calls on a fresh
  module: one more call leaves the counter where it is.
\<close>

theorem create_advance_counterexample:
  "counter (snd (exec Create (snd (creates double_limit initial)))) \<noteq>
   counter (snd (creates double_limit initial)) + 1"
proof -
  have "snd (creates double_limit initial) = \<lparr>counter = double_limit\<rparr>"
    using creates_from [of initial double_limit] by (simp add: initial_def)
  then show ?thesis
    by (simp add: CellId_create_def number_succ_def)
qed

text \<open>
  C9, amended: each call of \<open>CellId.create()\<close> made while the counter is below \<open>2 ^ 53\<close>
  advances it by exactly one; \<open>HTMLCellId.create\<close> and \<open>HTMLCellId.parse\<close> return a
  value that depends on their argument only and leave the module state unchanged.
\<close>

theorem create_advances_html_pure:
  "(counter s < double_limit \<longrightarrow> counter (snd (exec Create s)) = counter s + 1) \<and>
   exec (HtmlCreate c) s = (Str (HTMLCellId_create c), s) \<and>
   exec (HtmlParse h) s = (Str (HTMLCellId_parse h), s)"
  by (simp add: CellId_create_def number_succ_def)

theorem create_advances_html_pure_witness:
  "counter initial < double_limit \<and>
   counter (snd (exec Create initial)) = counter initial + 1 \<and>
   exec (HtmlCreate (lit ''0'')) initial = (Str (lit ''cell-0''), initial) \<and>
   exec (HtmlParse (lit ''cell-0'')) initial = (Str (lit ''0''), initial)"
  using create_advances_html_pure [of initial "lit ''0''" "lit ''cell-0''"]
  by (simp add: initial_def double_limit_def HTMLCellId_create_def HTMLCellId_parse_drop lit_def)

subsection \<open>The anchor identifiers\<close>

text \<open>
  C2: the round trip, both ways. \<open>HTMLCellId.parse(HTMLCellId.create(c))\<close> is \<open>c\<close> for
  every identifier \<open>c\<close>, and \<open>HTMLCellId.create(HTMLCellId.parse(x))\<close> is \<open>x\<close> for every
  \<open>x\<close> that starts with \<open>cell-\<close>.
\<close>

theorem html_roundtrip:
  "HTMLCellId_parse (HTMLCellId_create c) = c \<and>
   (is_HTMLCellId x \<longrightarrow> HTMLCellId_create (HTMLCellId_parse x) = x)"
proof
  show "HTMLCellId_parse (HTMLCellId_create c) = c"
    by (simp add: HTMLCellId_parse_drop HTMLCellId_create_def length_lit)
  show "is_HTMLCellId x \<longrightarrow> HTMLCellId_create (HTMLCellId_parse x) = x"
  proof
    assume "is_HTMLCellId x"
    then have "lit ''cell-'' = take 5 x" by (simp add: is_HTMLCellId_def)
    then show "HTMLCellId_create (HTMLCellId_parse x) = x"
      by (simp only: HTMLCellId_parse_drop HTMLCellId_create_def append_take_drop_id)
  qed
qed

theorem html_roundtrip_witness:
  "HTMLCellId_parse (HTMLCellId_create (lit ''0'')) = lit ''0'' \<and>
   is_HTMLCellId (lit ''cell-0'') \<and>
   HTMLCellId_create (HTMLCellId_parse (lit ''cell-0'')) = lit ''cell-0''"
  using html_roundtrip [of "lit ''0''" "lit ''cell-0''"]
  by (simp add: is_HTMLCellId_def lit_def)

text \<open>
  C4: \<open>HTMLCellId.create(c)\<close> is the concatenation of \<open>cell-\<close> and \<open>c\<close>: it begins with
  \<open>cell-\<close> and ends with \<open>c\<close>. In particular \<open>HTMLCellId.create("0")\<close> is \<open>"cell-0"\<close>
  and \<open>HTMLCellId.parse("cell-0")\<close> is \<open>"0"\<close>.
\<close>

theorem html_create_format:
  "HTMLCellId_create c = lit ''cell-'' @ c \<and>
   prefix (lit ''cell-'') (HTMLCellId_create c) \<and>
   suffix c (HTMLCellId_create c) \<and>
   HTMLCellId_create (lit ''0'') = lit ''cell-0'' \<and>
   HTMLCellId_parse (lit ''cell-0'') = lit ''0''"
proof (intro conjI)
  show "HTMLCellId_create c = lit ''cell-'' @ c"
    by (simp add: HTMLCellId_create_def)
  show "prefix (lit ''cell-'') (HTMLCellId_create c)"
    by (simp add: HTMLCellId_create_def)
  show "suffix c (HTMLCellId_create c)"
    unfolding HTMLCellId_create_def by (rule suffixI [OF refl])
  show "HTMLCellId_create (lit ''0'') = lit ''cell-0''"
    by (simp add: HTMLCellId_create_def lit_def)
  show "HTMLCellId_parse (lit ''cell-0'') = lit ''0''"
    by (simp add: HTMLCellId_parse_drop lit_def)
qed

text \<open>
  C10: \<open>HTMLCellId.parse\<close> is defined on every string: it returns the string without
  its first five code units, which is the empty string when there are five or fewer,
  and it does not reject a string that lacks the prefix: \<open>"hello-7"\<close> gives \<open>"-7"\<close>.
\<close>

theorem html_parse_total:
  "HTMLCellId_parse s = drop 5 s \<and>
   (length s \<le> 5 \<longrightarrow> HTMLCellId_parse s = []) \<and>
   \<not> is_HTMLCellId (lit ''hello-7'') \<and>
   HTMLCellId_parse (lit ''hello-7'') = lit ''-7''"
  by (simp add: HTMLCellId_parse_drop is_HTMLCellId_def lit_def)

theorem html_parse_total_witness:
  "length (lit ''abc'') \<le> 5 \<and> HTMLCellId_parse (lit ''abc'') = []"
  using html_parse_total [of "lit ''abc''"] by (simp add: lit_def)

subsection \<open>Finding the cell container\<close>

lemma closest_find: "closest sel e = find sel (inclusive_ancestors e)"
  by (induction sel e rule: closest.induct) simp_all

lemma find_first: "\<forall>b\<in>set pre. \<not> P b \<Longrightarrow> P a \<Longrightarrow> find P (pre @ a # post) = Some a"
  by (induction pre) simp_all

lemma find_none: "\<forall>b\<in>set xs. \<not> P b \<Longrightarrow> find P xs = None"
  by (induction xs) simp_all

lemma selector_anchor: "matches_cell_selector e \<Longrightarrow> has_anchor_id e"
  by (auto simp: matches_cell_selector_def has_anchor_id_def is_HTMLCellId_def
      split: option.splits)

text \<open>
  C6: \<open>HTMLCellId.findElement\<close> returns the nearest ancestor, the element included,
  whose identifier begins with \<open>cell-\<close>, whenever there is one. As stated this fails:
  the selector only matches \<open>div\<close> elements. For an \<open>em\<close> inside a
  \<open><section id="cell-2">\<close> the nearest such ancestor is the section, and the code
  returns \<open>null\<close>.
\<close>

theorem findElement_nearest_counterexample:
  "nearest_anchor em_in_section = Some anchor_section \<and>
   HTMLCellId_findElement em_in_section = None"
  by (simp add: nearest_anchor_def em_in_section_def anchor_section_def has_anchor_id_def
      is_HTMLCellId_def HTMLCellId_findElement_def matches_cell_selector_def
      getAttribute_def lit_def)

text \<open>
  C6, amended: \<open>HTMLCellId.findElement\<close> returns the nearest ancestor, the element
  included, that is a \<open>div\<close> element whose identifier begins with \<open>cell-\<close>, whenever
  there is one: if \<open>a\<close> is such an ancestor and none of the elements before it on the
  way up is, the result is \<open>a\<close>. An element nested three levels inside a
  \<open><div id="cell-2">\<close> yields that \<open>div\<close>.
\<close>

theorem findElement_nearest_div:
  "inclusive_ancestors e = pre @ a # post \<Longrightarrow> matches_cell_selector a \<Longrightarrow>
   \<forall>b\<in>set pre. \<not> matches_cell_selector b \<Longrightarrow>
   HTMLCellId_findElement e = Some a"
  by (simp add: HTMLCellId_findElement_def closest_find find_first)

theorem findElement_nearest_div_witness:
  "HTMLCellId_findElement level3 = Some cell2 \<and>
   getAttribute cell2 (lit ''id'') = Some (lit ''cell-2'')"
  using findElement_nearest_div [of level3 "[level3, level2, level1]" cell2 "[]"]
  by (simp add: level3_def level2_def level1_def cell2_def matches_cell_selector_def
      getAttribute_def lit_def)

text \<open>
  C7: for an element none of whose ancestors, itself included, has an identifier
  beginning with \<open>cell-\<close>, \<open>HTMLCellId.findElement\<close> returns \<open>null\<close>; it does not throw.
\<close>

theorem findElement_absent:
  "\<forall>a\<in>set (inclusive_ancestors e). \<not> has_anchor_id a \<Longrightarrow>
   HTMLCellId_findElement e = None"
  using selector_anchor
  by (auto simp: HTMLCellId_findElement_def closest_find intro!: find_none)

theorem findElement_absent_witness:
  "\<not> has_anchor_id heading \<and> \<not> has_anchor_id app_root \<and> \<not> has_anchor_id page_body \<and>
   HTMLCellId_findElement heading = None"
  using findElement_absent [of heading]
  by (simp add: heading_def app_root_def page_body_def has_anchor_id_def is_HTMLCellId_def
      getAttribute_def lit_def)

end
